theory Spec2Isabelle
  imports Complex_Main
begin

section \<open>Data model of WebhookProgressPlugin\<close>

text \<open>
  The plugin object of \<^verbatim>\<open>WebhookProgressPlugin.py\<close> is a record of its five data
  attributes (the leading underscore of the Python names is dropped). A Python float
  is the real number it denotes; every arithmetic operation on floats is followed by
  the rounding \<open>fl\<close> defined below. NaN and the infinities are not values of the model.
\<close>

record plugin =
  webhook_url :: string
  last_progress :: int
  is_printing :: bool
  current_job_name :: string
  print_start_time :: real

text \<open>
  The host's objects are opaque to the plugin, which probes them with \<^verbatim>\<open>hasattr\<close>.
  An attribute that may be missing is an \<open>option\<close> (\<open>None\<close>: \<^verbatim>\<open>hasattr\<close> is false).
  Reading a property or calling an accessor of the host either raises an exception,
  given by its text, or returns a value; a value that may be Python's \<^verbatim>\<open>None\<close> is an
  \<open>option\<close> again.
\<close>

datatype 'a call = Raises string | Returns 'a

record job =
  getName :: "string call option"
  getProgress :: "real option call option"

record device =
  activePrintJob :: "job option call option"
  printProgress :: "real option call option"

text \<open>The values stored in the \<^verbatim>\<open>data\<close> dictionary of an event.\<close>

datatype jvalue = JStr string | JInt int | JFloat real

text \<open>
  The payload dictionary built by \<^verbatim>\<open>_send_webhook_update\<close>. The \<^verbatim>\<open>data\<close> dictionary
  is an association list in insertion order.
\<close>

record payload =
  event_type :: string
  data :: "(string \<times> jvalue) list"
  plugin_version :: string

text \<open>
  What a method does besides updating the plugin: a call of \<^verbatim>\<open>Logger.log\<close> with its
  level and message, or the start of a daemon thread running
  \<^verbatim>\<open>_send_webhook_request\<close> on a payload. Only such a thread issues an HTTP request.
\<close>

datatype effect = Log string string | StartThread payload

section \<open>Python primitives\<close>

subsection \<open>Floats\<close>

text \<open>
  A Python float is an IEEE 754 double. \<open>fl x\<close> is the double nearest to the real
  \<open>x\<close>, ties going to the even significand: \<open>x\<close> is rounded to a multiple of its
  quantum, which is \<open>2\<close> to the power \<open>log2_floor \<bar>x\<bar> - 52\<close> and not less than \<open>2\<close>
  to the power \<open>-1074\<close> (the subnormal range). \<open>log2_floor x\<close> is the integer \<open>e\<close>
  with \<open>2 powi e \<le> x < 2 powi (e + 1)\<close>, computed from the bit length of an integer
  part. A real \<open>x\<close> is a double when \<open>fl x = x\<close>. A rounded result of magnitude
  \<open>2 ^ 1024\<close> or more stands for an infinity.
\<close>

fun bit_length :: "nat \<Rightarrow> nat" where
  "bit_length n = (if n = 0 then 0 else Suc (bit_length (n div 2)))"

definition log2_floor :: "real \<Rightarrow> int" where
  "log2_floor x =
     (if 1 \<le> x then int (bit_length (nat \<lfloor>x\<rfloor>)) - 1
      else - int (bit_length (nat (\<lceil>1 / x\<rceil> - 1))))"

definition round_half_even :: "real \<Rightarrow> int" where
  "round_half_even x =
     (let n = \<lfloor>x\<rfloor>; r = x - of_int n
      in if r < 1 / 2 then n else if 1 / 2 < r then n + 1 else if even n then n else n + 1)"

definition quantum :: "real \<Rightarrow> int" where
  "quantum x = max (log2_floor \<bar>x\<bar> - 52) (- 1074)"

definition fl :: "real \<Rightarrow> real" where
  "fl x = (if x = 0 then 0 else of_int (round_half_even (x / 2 powi quantum x)) * 2 powi quantum x)"

text \<open>
  \<^verbatim>\<open>int(x)\<close> of a finite float truncates towards zero; of an infinity it raises
  \<^verbatim>\<open>OverflowError\<close>, which is a branch of the handler that calls it.
\<close>

definition py_int :: "real \<Rightarrow> int" where
  "py_int x = (if 0 \<le> x then \<lfloor>x\<rfloor> else \<lceil>x\<rceil>)"

subsection \<open>Integers as text\<close>

text \<open>\<^verbatim>\<open>str(n)\<close> of an integer, as the f-strings of the log messages format it.\<close>

fun str_nat :: "nat \<Rightarrow> string" where
  "str_nat n =
     (if n < 10 then [char_of (48 + n)]
      else str_nat (n div 10) @ [char_of (48 + n mod 10)])"

definition str_int :: "int \<Rightarrow> string" where
  "str_int i = (if i < 0 then CHR ''-'' # str_nat (nat (- i)) else str_nat (nat i))"

section \<open>Construction and settings\<close>

text \<open>
  The test \<^verbatim>\<open>not self._webhook_url or self._webhook_url == "https://your-webhook-url.com/progress"\<close>,
  written out three times in the source.
\<close>

definition url_unconfigured :: "string \<Rightarrow> bool" where
  "url_unconfigured u \<longleftrightarrow> u = [] \<or> u = ''https://your-webhook-url.com/progress''"

text \<open>\<^verbatim>\<open>_load_settings\<close>: stores the hard-coded URL and warns when it is unconfigured.\<close>

definition load_settings :: "plugin \<Rightarrow> plugin \<times> effect list" where
  "load_settings s =
     (let s1 = s\<lparr>webhook_url := ''https://your-webhook-url.com/progress''\<rparr>
      in (s1,
          if url_unconfigured (webhook_url s1)
          then [Log ''w'' ''No webhook URL configured for WebhookProgressPlugin. Please update the URL in WebhookProgressPlugin.py'']
          else []))"

text \<open>\<^verbatim>\<open>__init__\<close>: the attribute defaults, then \<^verbatim>\<open>_load_settings\<close>, then the log line.\<close>

definition init :: "plugin \<times> effect list" where
  "init =
     (let s0 = \<lparr>webhook_url = [], last_progress = - 1, is_printing = False,
                current_job_name = [], print_start_time = 0\<rparr>;
          (s1, es) = load_settings s0
      in (s1, es @ [Log ''i'' ''WebhookProgressPlugin initialized'']))"

text \<open>\<^verbatim>\<open>setWebhookUrl\<close>.\<close>

definition setWebhookUrl :: "plugin \<Rightarrow> string \<Rightarrow> plugin \<times> effect list" where
  "setWebhookUrl s url = (s\<lparr>webhook_url := url\<rparr>, [Log ''i'' (''Webhook URL set to: '' @ url)])"

section \<open>Event dispatch\<close>

text \<open>
  \<^verbatim>\<open>_send_webhook_update\<close>: with an unconfigured URL it logs and returns; otherwise it
  builds the payload and starts the sender thread.
\<close>

definition send_webhook_update :: "plugin \<Rightarrow> string \<Rightarrow> (string \<times> jvalue) list \<Rightarrow> effect list" where
  "send_webhook_update s ev d =
     (if url_unconfigured (webhook_url s)
      then [Log ''w'' ''Webhook URL not configured, skipping update'']
      else [StartThread \<lparr>event_type = ev, data = d, plugin_version = ''1.0.0''\<rparr>])"

section \<open>Progress tracker\<close>

text \<open>
  A handler returns the plugin as it has left it, the effects it has had, and the text
  of the exception that left it, if one did: the attributes assigned before the
  exception keep their new values.

  \<^verbatim>\<open>_on_print_job_changed\<close>. The argument \<open>now\<close> is the reading of \<^verbatim>\<open>time.time()\<close>
  that either branch takes once. With a job, \<^verbatim>\<open>_is_printing\<close> is assigned first; then
  the name is read, \<^verbatim>\<open>job.getName()\<close> when the job has the accessor and \<^verbatim>\<open>"Unknown"\<close>
  otherwise; the remaining attributes are assigned only when that call returns.
\<close>

definition on_print_job_changed ::
  "plugin \<Rightarrow> job option \<Rightarrow> real \<Rightarrow> plugin \<times> effect list \<times> string option" where
  "on_print_job_changed s j now =
     (case j of
        None \<Rightarrow>
          (let s1 = s\<lparr>is_printing := False, current_job_name := [], last_progress := - 1\<rparr>
           in (s1,
               send_webhook_update s1 ''print_ended''
                 [(''message'', JStr ''Print job ended or cancelled''),
                  (''timestamp'', JFloat now)],
               None))
      | Some jb \<Rightarrow>
          (let s1 = s\<lparr>is_printing := True\<rparr>
           in (case (case getName jb of Some c \<Rightarrow> c | None \<Rightarrow> Returns ''Unknown'') of
                 Raises e \<Rightarrow> (s1, [], Some e)
               | Returns name \<Rightarrow>
                   (let s2 = s1\<lparr>current_job_name := name, print_start_time := now,
                                last_progress := 0\<rparr>
                    in (s2,
                        send_webhook_update s2 ''print_started''
                          [(''job_name'', JStr (current_job_name s2)),
                           (''start_time'', JFloat (print_start_time s2))],
                        None)))))"

text \<open>
  \<^verbatim>\<open>_on_print_progress_changed\<close>. \<open>t1\<close> is the reading of \<^verbatim>\<open>time.time()\<close> taken for
  the elapsed time and \<open>t2\<close> the later one stored as the timestamp. The product
  \<^verbatim>\<open>progress * 100\<close> is rounded to a double before \<^verbatim>\<open>int\<close> truncates it, and \<^verbatim>\<open>int\<close>
  raises when the product has overflowed. The literal \<^verbatim>\<open>0.01\<close> is the double
  \<open>fl (1 / 100)\<close>. The divisor is \<open>progress\<close> or that double, never zero, so the division
  cannot raise; the subtraction and the division are rounded too.
\<close>

definition on_print_progress_changed ::
  "plugin \<Rightarrow> real \<Rightarrow> real \<Rightarrow> real \<Rightarrow> plugin \<times> effect list \<times> string option" where
  "on_print_progress_changed s progress t1 t2 =
     (if \<not> is_printing s then (s, [], None)
      else if 2 ^ 1024 \<le> \<bar>fl (progress * 100)\<bar>
      then (s, [], Some ''cannot convert float infinity to integer'')
      else
        (let progress_percent = py_int (fl (progress * 100))
         in if progress_percent > last_progress s
            then
              (let s1 = s\<lparr>last_progress := progress_percent\<rparr>;
                   elapsed_time = fl (t1 - print_start_time s1);
                   estimated_total =
                     fl (elapsed_time / (if progress > 0 then progress else fl (1 / 100)));
                   estimated_remaining = fl (estimated_total - elapsed_time)
               in (s1,
                   send_webhook_update s1 ''progress_update''
                     [(''job_name'', JStr (current_job_name s1)),
                      (''progress_percent'', JInt progress_percent),
                      (''elapsed_time_seconds'', JFloat elapsed_time),
                      (''estimated_remaining_seconds'', JFloat estimated_remaining),
                      (''timestamp'', JFloat t2)],
                   None))
            else (s, [], None)))"

section \<open>Poller\<close>

text \<open>
  The body of the \<^verbatim>\<open>for device in output_devices\<close> loop of \<^verbatim>\<open>_check_print_progress\<close>.
  A device comes with the three clock readings its iteration may take: \<open>tj\<close> for a
  synthesized job change, \<open>t1\<close> and \<open>t2\<close> for a progress update. The progress is
  \<^verbatim>\<open>0.0\<close> unless the job has \<^verbatim>\<open>getProgress\<close> or else the device has \<^verbatim>\<open>printProgress\<close>;
  a progress that is \<^verbatim>\<open>None\<close> is not delivered. An exception of the host or of a
  handler ends the iteration where it is raised.
\<close>

definition check_device ::
  "plugin \<Rightarrow> device \<times> real \<times> real \<times> real \<Rightarrow> plugin \<times> effect list \<times> string option" where
  "check_device s d =
     (case d of (dev, tj, t1, t2) \<Rightarrow>
        (case activePrintJob dev of
           None \<Rightarrow> (s, [], None)
         | Some (Raises e) \<Rightarrow> (s, [], Some e)
         | Some (Returns None) \<Rightarrow>
             (if is_printing s then on_print_job_changed s None tj else (s, [], None))
         | Some (Returns (Some jb)) \<Rightarrow>
             (case (if \<not> is_printing s then on_print_job_changed s (Some jb) tj
                    else (s, [], None)) of
                (s1, es1, Some e) \<Rightarrow> (s1, es1, Some e)
              | (s1, es1, None) \<Rightarrow>
                  (case (case getProgress jb of
                           Some c \<Rightarrow> c
                         | None \<Rightarrow>
                             (case printProgress dev of
                                Some c \<Rightarrow> c
                              | None \<Rightarrow> Returns (Some 0))) of
                     Raises e \<Rightarrow> (s1, es1, Some e)
                   | Returns None \<Rightarrow> (s1, es1, None)
                   | Returns (Some progress) \<Rightarrow>
                       (case on_print_progress_changed s1 progress t1 t2 of
                          (s2, es2, x) \<Rightarrow> (s2, es1 @ es2, x))))))"

text \<open>The loop itself: the devices in order, up to the first exception.\<close>

fun check_devices ::
  "plugin \<Rightarrow> (device \<times> real \<times> real \<times> real) list \<Rightarrow> plugin \<times> effect list \<times> string option" where
  "check_devices s [] = (s, [], None)"
| "check_devices s (d # ds) =
     (case check_device s d of
        (s1, es1, Some e) \<Rightarrow> (s1, es1, Some e)
      | (s1, es1, None) \<Rightarrow>
          (case check_devices s1 ds of (s2, es2, x) \<Rightarrow> (s2, es1 @ es2, x)))"

text \<open>
  \<^verbatim>\<open>_check_print_progress\<close>: one timer tick. The argument is what reading
  \<^verbatim>\<open>printerOutputDevices\<close> comes to. The \<^verbatim>\<open>except\<close> clause catches whatever the
  \<^verbatim>\<open>try\<close> block raises and logs it; the tick never raises, and the attributes assigned
  before the exception stay assigned.
\<close>

definition check_print_progress ::
  "plugin \<Rightarrow> (device \<times> real \<times> real \<times> real) list call \<Rightarrow> plugin \<times> effect list" where
  "check_print_progress s output_devices =
     (if url_unconfigured (webhook_url s) then (s, [])
      else
        (case output_devices of
           Raises e \<Rightarrow> (s, [Log ''e'' (''Error checking print progress: '' @ e)])
         | Returns ds \<Rightarrow>
             (case check_devices s ds of
                (s1, es, None) \<Rightarrow> (s1, es)
              | (s1, es, Some e) \<Rightarrow>
                  (s1, es @ [Log ''e'' (''Error checking print progress: '' @ e)]))))"

text \<open>\<^verbatim>\<open>_on_connection_state_changed\<close>: a debug line; the state is shown as its text.\<close>

definition on_connection_state_changed :: "plugin \<Rightarrow> string \<Rightarrow> plugin \<times> effect list" where
  "on_connection_state_changed s connection_state =
     (s, [Log ''d'' (''Printer connection state changed: '' @ connection_state)])"

section \<open>Notification sender\<close>

text \<open>
  The exceptions the \<^verbatim>\<open>try\<close> block of \<^verbatim>\<open>_send_webhook_request\<close> can meet, by the
  \<^verbatim>\<open>except\<close> clause that catches them: \<^verbatim>\<open>HTTPError\<close> with code and reason,
  \<^verbatim>\<open>URLError\<close> with its reason, and any other \<^verbatim>\<open>Exception\<close> (a \<^verbatim>\<open>TypeError\<close> of
  \<^verbatim>\<open>json.dumps\<close>, a \<^verbatim>\<open>ValueError\<close> of \<^verbatim>\<open>Request\<close>, a socket timeout) with its text.
\<close>

datatype exn = HTTPError int string | URLError string | OtherException string

text \<open>
  What serialising the payload and opening the URL comes to: an exception raised at
  one of the three steps, or a response with its status code.
\<close>

datatype outcome =
    DumpsRaises exn
  | RequestRaises exn
  | UrlopenRaises exn
  | Response int

text \<open>The \<^verbatim>\<open>try\<close> block: it raises (\<open>Inl\<close>) or completes with the log line of the response.\<close>

definition send_webhook_request_try :: "payload \<Rightarrow> outcome \<Rightarrow> exn + effect list" where
  "send_webhook_request_try pl out =
     (case out of
        DumpsRaises e \<Rightarrow> Inl e
      | RequestRaises e \<Rightarrow> Inl e
      | UrlopenRaises e \<Rightarrow> Inl e
      | Response code \<Rightarrow>
          Inr [if code = 200
               then Log ''d'' (''Webhook update sent successfully: '' @ event_type pl)
               else Log ''w'' (''Webhook returned status '' @ str_int code)])"

text \<open>
  \<^verbatim>\<open>_send_webhook_request\<close>: the \<^verbatim>\<open>try\<close> block under its three \<^verbatim>\<open>except\<close> clauses, in
  the source's order. \<open>Inl\<close> would be an exception that leaves the function.
\<close>

definition send_webhook_request :: "payload \<Rightarrow> outcome \<Rightarrow> exn + effect list" where
  "send_webhook_request pl out =
     (case send_webhook_request_try pl out of
        Inr es \<Rightarrow> Inr es
      | Inl (HTTPError code reason) \<Rightarrow>
          Inr [Log ''e'' (''HTTP error sending webhook: '' @ str_int code @ '' - '' @ reason)]
      | Inl (URLError reason) \<Rightarrow>
          Inr [Log ''e'' (''URL error sending webhook: '' @ reason)]
      | Inl (OtherException msg) \<Rightarrow>
          Inr [Log ''e'' (''Unexpected error sending webhook: '' @ msg)])"

section \<open>Signals and runs\<close>

text \<open>
  Everything that can call into the plugin after construction: the two tracker signals
  pushed by a device, the connection-state signal, a timer tick with what reading the
  device list comes to, and the URL setter. Each carries the clock readings its handler
  takes.
\<close>

datatype signal =
    PrintJobChanged "job option" real
  | PrintProgressChanged real real real
  | ConnectionStateChanged string
  | TimerTick "(device \<times> real \<times> real \<times> real) list call"
  | SetWebhookUrl string

fun step :: "plugin \<Rightarrow> signal \<Rightarrow> plugin \<times> effect list \<times> string option" where
  "step s (PrintJobChanged j now) = on_print_job_changed s j now"
| "step s (PrintProgressChanged p t1 t2) = on_print_progress_changed s p t1 t2"
| "step s (ConnectionStateChanged c) =
     (case on_connection_state_changed s c of (s1, es) \<Rightarrow> (s1, es, None))"
| "step s (TimerTick ds) = (case check_print_progress s ds of (s1, es) \<Rightarrow> (s1, es, None))"
| "step s (SetWebhookUrl u) = (case setWebhookUrl s u of (s1, es) \<Rightarrow> (s1, es, None))"

text \<open>
  A run: the signals in order. An exception that leaves a pushed handler goes to the
  host's signal dispatcher; the plugin object stays as the handler has left it, and the
  next signal finds it so.
\<close>

fun exec :: "plugin \<Rightarrow> signal list \<Rightarrow> plugin \<times> effect list" where
  "exec s [] = (s, [])"
| "exec s (x # xs) =
     (case step s x of (s1, es1, _) \<Rightarrow> (case exec s1 xs of (s2, es2) \<Rightarrow> (s2, es1 @ es2)))"

text \<open>The states the plugin can be in: those a run from the constructed plugin ends in.\<close>

definition reached :: "signal list \<Rightarrow> plugin" where
  "reached xs = fst (exec (fst init) xs)"

text \<open>Whether an effect starts a sender thread, that is, leads to an HTTP request.\<close>

fun is_request :: "effect \<Rightarrow> bool" where
  "is_request (StartThread pl) = True"
| "is_request (Log l m) = False"

text \<open>
  Whether the name of a job can be read without an exception, and whether this holds of
  every job a signal can start: the job of a pushed job change, and the active jobs of
  the devices of a tick.
\<close>

definition name_returns :: "job \<Rightarrow> bool" where
  "name_returns jb = (case getName jb of Some (Raises e) \<Rightarrow> False | _ \<Rightarrow> True)"

fun device_name_returns :: "device \<times> real \<times> real \<times> real \<Rightarrow> bool" where
  "device_name_returns (dev, ts) =
     (case activePrintJob dev of Some (Returns (Some jb)) \<Rightarrow> name_returns jb | _ \<Rightarrow> True)"

fun names_return :: "signal \<Rightarrow> bool" where
  "names_return (PrintJobChanged (Some jb) now) = name_returns jb"
| "names_return (TimerTick (Returns ds)) = list_all device_name_returns ds"
| "names_return x = True"


definition started_inv :: "plugin \<Rightarrow> bool" where
  "started_inv s = (if is_printing s then 0 \<le> last_progress s else last_progress s = - 1)"

section \<open>Facts about the rounding\<close>

declare bit_length.simps [simp del]

text \<open>The definitions that evaluate \<open>fl\<close> at a numeral.\<close>

lemmas fl_eval = fl_def quantum_def log2_floor_def round_half_even_def bit_length.simps Let_def

lemma bit_length_bounds: "0 < n \<Longrightarrow> 2 ^ (bit_length n - 1) \<le> n \<and> n < 2 ^ bit_length n"
proof (induction n rule: bit_length.induct)
  case (1 n)
  show ?case
  proof (cases "n div 2 = 0")
    case True
    with "1.prems" have "n = 1" by presburger
    then show ?thesis by (simp add: bit_length.simps)
  next
    case False
    then have pos: "0 < n div 2" by simp
    let ?k = "bit_length (n div 2)"
    from "1.IH" "1.prems" pos have ih: "2 ^ (?k - 1) \<le> n div 2 \<and> n div 2 < 2 ^ ?k" by simp
    have k: "0 < ?k" using pos by (simp add: bit_length.simps)
    have bl: "bit_length n = Suc ?k" using "1.prems" by (subst bit_length.simps) simp
    from k have "(2::nat) ^ ?k = 2 * 2 ^ (?k - 1)" by (cases ?k) simp_all
    with ih have lo: "2 ^ ?k \<le> n" by presburger
    from ih have "n < 2 * 2 ^ ?k" by presburger
    with lo bl show ?thesis by simp
  qed
qed

lemma log2_floor_bounds:
  assumes "0 < x"
  shows "2 powi log2_floor x \<le> x \<and> x < 2 powi (log2_floor x + 1)"
proof (cases "1 \<le> x")
  case True
  let ?n = "nat \<lfloor>x\<rfloor>"
  let ?k = "bit_length ?n"
  from True have n: "0 < ?n" by simp
  then have b: "2 ^ (?k - 1) \<le> ?n \<and> ?n < 2 ^ ?k" by (rule bit_length_bounds)
  have k: "0 < ?k" using n by (simp add: bit_length.simps)
  have e: "log2_floor x = int (?k - 1)" using True k by (simp add: log2_floor_def)
  have "real (2 ^ (?k - 1)) \<le> real ?n" using b by (simp only: of_nat_le_iff)
  also have "real ?n \<le> x" using True by simp
  finally have lo: "2 ^ (?k - 1) \<le> x" by simp
  have "?n + 1 \<le> 2 ^ ?k" using b by arith
  then have "real (?n + 1) \<le> real (2 ^ ?k)" by (simp only: of_nat_le_iff)
  moreover have "x < real (?n + 1)" using True by simp linarith
  ultimately have hi: "x < 2 ^ ?k" by simp
  have p1: "(2::real) powi log2_floor x = 2 ^ (?k - 1)" by (simp only: e power_int_of_nat)
  have "log2_floor x + 1 = int ?k" using k by (simp add: e)
  then have p2: "(2::real) powi (log2_floor x + 1) = 2 ^ ?k" by (simp only: power_int_of_nat)
  from lo hi show ?thesis by (simp only: p1 p2)
next
  case False
  with assms have x1: "x < 1" by simp
  define y where "y = 1 / x"
  define m where "m = nat (\<lceil>y\<rceil> - 1)"
  define k where "k = bit_length m"
  have y1: "1 < y" using assms x1 by (simp add: y_def)
  have xy: "x = 1 / y" by (simp add: y_def)
  have ypos: "0 < y" using y1 by simp
  from y1 have c2: "2 \<le> \<lceil>y\<rceil>" by linarith
  then have m: "0 < m" by (simp add: m_def)
  then have b: "2 ^ (k - 1) \<le> m \<and> m < 2 ^ k" unfolding k_def by (rule bit_length_bounds)
  have k: "0 < k" using m by (simp add: k_def bit_length.simps)
  have e: "log2_floor x = - int k" using False by (simp add: log2_floor_def k_def m_def y_def)
  have "int m = \<lceil>y\<rceil> - 1" using c2 by (simp add: m_def)
  then have "real_of_int (int m) = of_int (\<lceil>y\<rceil> - 1)" by (simp only:)
  then have mr: "real m = of_int \<lceil>y\<rceil> - 1" by simp
  have "m + 1 \<le> 2 ^ k" using b by arith
  then have "real (m + 1) \<le> real (2 ^ k)" by (simp only: of_nat_le_iff)
  moreover have "y \<le> real (m + 1)" using mr by simp
  ultimately have yk: "y \<le> 2 ^ k" by simp
  have lo: "1 / 2 ^ k \<le> x"
    unfolding xy using yk ypos by (intro divide_left_mono) simp_all
  have "real (2 ^ (k - 1)) \<le> real m" using b by (simp only: of_nat_le_iff)
  moreover have "real m < y" using mr by linarith
  ultimately have "real (2 ^ (k - 1)) < y" by (rule le_less_trans)
  then have ky: "2 ^ (k - 1) < y" by simp
  have hi: "x < 1 / 2 ^ (k - 1)"
    unfolding xy using ky ypos by (intro divide_strict_left_mono) simp_all
  have p1: "(2::real) powi log2_floor x = 1 / 2 ^ k"
    by (simp only: e power_int_minus_divide power_int_of_nat)
  have "log2_floor x + 1 = - int (k - 1)" using k by (simp add: e)
  then have p2: "(2::real) powi (log2_floor x + 1) = 1 / 2 ^ (k - 1)"
    by (simp only: power_int_minus_divide power_int_of_nat)
  from lo hi show ?thesis by (simp only: p1 p2)
qed

lemma pow2_less_imp_less: "(2::real) powi a < 2 powi b \<Longrightarrow> a < b"
proof (rule ccontr)
  assume lt: "(2::real) powi a < 2 powi b" and "\<not> a < b"
  then have "b \<le> a" by simp
  then have "(2::real) powi b \<le> 2 powi a" by (intro power_int_increasing) simp_all
  with lt show False by simp
qed

lemma log2_floor_unique:
  assumes "0 < x" and "2 powi e \<le> x" and "x < 2 powi (e + 1)"
  shows "log2_floor x = e"
proof -
  let ?l = "log2_floor x"
  from assms(1) have b: "2 powi ?l \<le> x \<and> x < 2 powi (?l + 1)" by (rule log2_floor_bounds)
  have "(2::real) powi e < 2 powi (?l + 1)" using assms(2) b by linarith
  then have "e < ?l + 1" by (rule pow2_less_imp_less)
  moreover have "(2::real) powi ?l < 2 powi (e + 1)" using assms(3) b by linarith
  then have "?l < e + 1" by (rule pow2_less_imp_less)
  ultimately show ?thesis by simp
qed

lemma round_half_even_upper: "of_int (round_half_even x) \<le> x + 1 / 2"
  by (simp add: round_half_even_def Let_def) linarith

lemma round_half_even_lower: "x - 1 / 2 \<le> of_int (round_half_even x)"
  by (simp add: round_half_even_def Let_def) linarith

lemma round_half_even_nonneg: "0 \<le> x \<Longrightarrow> 0 \<le> round_half_even x"
  by (simp add: round_half_even_def Let_def)

lemma round_half_even_nonpos: "x \<le> 0 \<Longrightarrow> round_half_even x \<le> 0"
proof -
  assume "x \<le> 0"
  then have "of_int (round_half_even x) \<le> (1 / 2 :: real)"
    using round_half_even_upper [of x] by linarith
  then have "round_half_even x < 1" by linarith
  then show ?thesis by simp
qed

lemma round_half_even_of_int: "round_half_even (of_int n) = n"
  by (simp add: round_half_even_def)

lemma fl_nonneg: "0 \<le> x \<Longrightarrow> 0 \<le> fl x"
  by (simp add: fl_def round_half_even_nonneg)

lemma fl_nonpos: "x \<le> 0 \<Longrightarrow> fl x \<le> 0"
proof -
  assume x: "x \<le> 0"
  have "x / 2 powi quantum x \<le> 0" using x by (simp add: divide_nonpos_pos)
  then have "round_half_even (x / 2 powi quantum x) \<le> 0" by (rule round_half_even_nonpos)
  then have "real_of_int (round_half_even (x / 2 powi quantum x)) * 2 powi quantum x \<le> 0"
    by (intro mult_nonpos_nonneg) simp_all
  then show ?thesis by (simp add: fl_def)
qed

lemma fl_upper: "fl x \<le> x + 2 powi quantum x / 2"
proof (cases "x = 0")
  case True
  then show ?thesis by (simp add: fl_def)
next
  case False
  let ?q = "(2::real) powi quantum x"
  have q: "0 < ?q" by simp
  have "of_int (round_half_even (x / ?q)) \<le> x / ?q + 1 / 2" by (rule round_half_even_upper)
  then have "of_int (round_half_even (x / ?q)) * ?q \<le> (x / ?q + 1 / 2) * ?q"
    using q by (intro mult_right_mono) simp_all
  also have "\<dots> = x + ?q / 2" using q by (simp add: field_simps)
  finally show ?thesis using False by (simp add: fl_def)
qed

lemma quantum_le:
  assumes "0 < x" and "x < 2 powi e"
  shows "quantum x \<le> max (e - 53) (- 1074)"
proof -
  from assms(1) have "2 powi log2_floor x \<le> x" using log2_floor_bounds by blast
  with assms(2) have "(2::real) powi log2_floor x < 2 powi e" by linarith
  then have "log2_floor x < e" by (rule pow2_less_imp_less)
  then show ?thesis using assms(1) by (simp add: quantum_def)
qed

lemma fl_less_one:
  assumes "0 \<le> x" and "x < 1 - 1 / 2 ^ 54"
  shows "fl x < 1"
proof (cases "x = 0")
  case True
  then show ?thesis by (simp add: fl_def)
next
  case False
  with assms(1) have pos: "0 < x" by simp
  have "x < 2 powi 0" using assms(2) by simp
  with pos have "quantum x \<le> max (0 - 53) (- 1074)" by (rule quantum_le)
  then have "quantum x \<le> - 53" by simp
  then have "(2::real) powi quantum x \<le> 2 powi (- 53)" by (intro power_int_increasing) simp_all
  then have "(2::real) powi quantum x / 2 \<le> 1 / 2 ^ 54" by simp
  with fl_upper [of x] assms(2) show ?thesis by linarith
qed

lemma fl_bounded:
  assumes "0 \<le> x" and "x \<le> 100"
  shows "0 \<le> fl x \<and> fl x < 128"
proof (cases "x = 0")
  case True
  then show ?thesis by (simp add: fl_def)
next
  case False
  with assms(1) have pos: "0 < x" by simp
  have "x < 2 powi 7" using assms(2) by simp
  with pos have "quantum x \<le> max (7 - 53) (- 1074)" by (rule quantum_le)
  then have "quantum x \<le> 0" by simp
  then have "(2::real) powi quantum x \<le> 2 powi 0" by (intro power_int_increasing) simp_all
  then have "(2::real) powi quantum x / 2 \<le> 1" by simp
  with fl_upper [of x] assms fl_nonneg [of x] show ?thesis by linarith
qed

lemma double_below_hundredth:
  assumes dbl: "fl p = p" and pos: "0 < p" and lt: "p < fl (1 / 100)"
  shows "p * 100 < 1 - 1 / 2 ^ 54"
proof (cases "p < 1 / 128")
  case True
  then have "p * 100 < 100 / 128" by simp
  also have "(100 / 128 :: real) < 1 - 1 / 2 ^ 54" by simp
  finally show ?thesis .
next
  case False
  have c: "fl (1 / 100) = 5764607523034235 / 2 ^ 59" by (simp add: fl_eval)
  have lo: "2 powi (- 7) \<le> p" using False by simp
  have hi: "p < 2 powi (- 7 + 1)" using lt c by simp
  from pos lo hi have "log2_floor p = - 7" by (rule log2_floor_unique)
  then have q: "quantum p = - 59" using pos by (simp add: quantum_def)
  define m where "m = round_half_even (p / 2 powi (- 59))"
  from dbl pos q have "of_int m * 2 powi (- 59) = p" by (simp add: fl_def m_def)
  then have pm: "p = of_int m / 2 ^ 59" by simp
  with lt c have "real_of_int m < 5764607523034235" by (simp add: field_simps)
  then have "m < 5764607523034235" by linarith
  then have "m \<le> 5764607523034234" by simp
  then have "real_of_int m \<le> 5764607523034234" by linarith
  then have "p * 100 \<le> 5764607523034234 / 2 ^ 59 * 100" by (simp add: pm field_simps)
  also have "(5764607523034234 / 2 ^ 59 * 100 :: real) < 1 - 1 / 2 ^ 54" by simp
  finally show ?thesis .
qed

section \<open>Basic facts\<close>

lemma py_int_nonneg: "0 \<le> x \<Longrightarrow> py_int x = \<lfloor>x\<rfloor>"
  by (simp add: py_int_def)

lemma py_int_pos_ge_one: "0 < py_int x \<Longrightarrow> 1 \<le> x"
proof -
  assume pos: "0 < py_int x"
  show "1 \<le> x"
  proof (cases "0 \<le> x")
    case True
    with pos have "1 \<le> \<lfloor>x\<rfloor>" by (simp add: py_int_def)
    then show ?thesis by linarith
  next
    case False
    then have "\<lceil>x\<rceil> \<le> 0" by (simp add: ceiling_le_iff)
    with pos False show ?thesis by (simp add: py_int_def)
  qed
qed

lemma init_state:
  "fst init = \<lparr>webhook_url = ''https://your-webhook-url.com/progress'', last_progress = - 1,
                is_printing = False, current_job_name = [], print_start_time = 0\<rparr>"
  by (simp add: init_def load_settings_def)


lemma send_webhook_update_url:
  "webhook_url s' = webhook_url s \<Longrightarrow> send_webhook_update s' ev d = send_webhook_update s ev d"
  by (simp add: send_webhook_update_def)

subsection \<open>The job-changed handler\<close>

lemma job_ended:
  "on_print_job_changed s None now =
     (s\<lparr>is_printing := False, current_job_name := [], last_progress := - 1\<rparr>,
      send_webhook_update s ''print_ended''
        [(''message'', JStr ''Print job ended or cancelled''), (''timestamp'', JFloat now)],
      None)"
  by (simp add: on_print_job_changed_def Let_def send_webhook_update_def)



lemma job_changed_url: "webhook_url (fst (on_print_job_changed s j now)) = webhook_url s"
  by (simp add: on_print_job_changed_def Let_def split: option.splits call.splits)

subsection \<open>The progress-changed handler\<close>

lemma progress_changed_idle:
  "\<not> is_printing s \<Longrightarrow> on_print_progress_changed s p t1 t2 = (s, [], None)"
  by (simp add: on_print_progress_changed_def)

lemma progress_changed_stale:
  "\<bar>fl (p * 100)\<bar> < 2 ^ 1024 \<Longrightarrow> py_int (fl (p * 100)) \<le> last_progress s \<Longrightarrow>
     on_print_progress_changed s p t1 t2 = (s, [], None)"
  by (simp add: on_print_progress_changed_def)

lemma progress_changed_state:
  "fst (on_print_progress_changed s p t1 t2) =
     (if is_printing s \<and> \<bar>fl (p * 100)\<bar> < 2 ^ 1024 \<and> last_progress s < py_int (fl (p * 100))
      then s\<lparr>last_progress := py_int (fl (p * 100))\<rparr> else s)"
  by (simp add: on_print_progress_changed_def Let_def)



lemma progress_changed_url:
  "webhook_url (fst (on_print_progress_changed s p t1 t2)) = webhook_url s"
  by (simp add: progress_changed_state)

lemma progress_changed_fires:
  "fst (snd (on_print_progress_changed s p t1 t2)) \<noteq> [] \<longleftrightarrow>
     is_printing s \<and> \<bar>fl (p * 100)\<bar> < 2 ^ 1024 \<and> last_progress s < py_int (fl (p * 100))"
  by (simp add: on_print_progress_changed_def Let_def send_webhook_update_def)

lemma progress_changed_emits:
  "is_printing s \<Longrightarrow> \<bar>fl (p * 100)\<bar> < 2 ^ 1024 \<Longrightarrow> last_progress s < py_int (fl (p * 100)) \<Longrightarrow>
     on_print_progress_changed s p t1 t2 =
       (s\<lparr>last_progress := py_int (fl (p * 100))\<rparr>,
        send_webhook_update s ''progress_update''
          [(''job_name'', JStr (current_job_name s)),
           (''progress_percent'', JInt (py_int (fl (p * 100)))),
           (''elapsed_time_seconds'', JFloat (fl (t1 - print_start_time s))),
           (''estimated_remaining_seconds'',
              JFloat (fl (fl (fl (t1 - print_start_time s) / (if p > 0 then p else fl (1 / 100)))
                          - fl (t1 - print_start_time s)))),
           (''timestamp'', JFloat t2)],
        None)"
  by (simp add: on_print_progress_changed_def Let_def send_webhook_update_def)

lemma percent_in_range:
  assumes "0 \<le> p" and "p \<le> 1"
  shows "\<bar>fl (p * 100)\<bar> < 2 ^ 1024 \<and> py_int (fl (p * 100)) = \<lfloor>fl (p * 100)\<rfloor>"
proof -
  from assms have "0 \<le> p * 100" and "p * 100 \<le> 100" by simp_all
  then have b: "0 \<le> fl (p * 100) \<and> fl (p * 100) < 128" by (rule fl_bounded)
  have "(128::real) < 2 ^ 1024" by simp
  with b have "\<bar>fl (p * 100)\<bar> < 2 ^ 1024" by linarith
  with b show ?thesis by (simp add: py_int_nonneg)
qed

subsection \<open>One device of a tick\<close>






subsection \<open>The tracker invariant holds in every state a run reaches\<close>












subsection \<open>While every name is read without an exception, printing has a percentage\<close>

lemma started_inv_init: "started_inv (fst init)"
  by (simp add: init_state started_inv_def)

lemma job_ended_started: "started_inv (fst (on_print_job_changed s None now))"
  by (simp add: job_ended started_inv_def)

lemma job_started_started:
  "name_returns jb \<Longrightarrow> started_inv (fst (on_print_job_changed s (Some jb) now))"
  by (simp add: on_print_job_changed_def Let_def started_inv_def name_returns_def
           split: option.splits call.splits)

lemma progress_changed_started:
  "started_inv s \<Longrightarrow> started_inv (fst (on_print_progress_changed s p t1 t2))"
  by (auto simp: started_inv_def progress_changed_state split: if_splits)

lemma check_device_started:
  "started_inv s \<Longrightarrow> device_name_returns d \<Longrightarrow> started_inv (fst (check_device s d))"
  by (cases d)
     (auto simp: check_device_def case_prod_beta job_ended_started job_started_started
        progress_changed_started split: option.splits call.splits)

lemma check_devices_started:
  "started_inv s \<Longrightarrow> list_all device_name_returns ds \<Longrightarrow>
     started_inv (fst (check_devices s ds))"
  by (induction ds arbitrary: s)
     (auto simp: case_prod_beta check_device_started split: option.splits)

lemma set_url_started: "started_inv (s\<lparr>webhook_url := u\<rparr>) = started_inv s"
  by (simp add: started_inv_def)

lemma step_started:
  assumes "started_inv s" and "names_return x"
  shows "started_inv (fst (step s x))"
proof (cases x)
  case (PrintJobChanged j now)
  with assms(2) show ?thesis
    by (cases j) (simp_all add: job_ended_started job_started_started)
next
  case (PrintProgressChanged p t1 t2)
  with assms(1) show ?thesis by (simp add: progress_changed_started)
next
  case (ConnectionStateChanged c)
  with assms(1) show ?thesis by (simp add: on_connection_state_changed_def)
next
  case (TimerTick ds)
  with assms show ?thesis
    by (cases ds)
       (auto simp: check_print_progress_def case_prod_beta check_devices_started
          split: option.splits)
next
  case (SetWebhookUrl u)
  with assms(1) show ?thesis by (simp add: setWebhookUrl_def set_url_started)
qed

lemma exec_started:
  "started_inv s \<Longrightarrow> list_all names_return xs \<Longrightarrow> started_inv (fst (exec s xs))"
  by (induction xs arbitrary: s) (auto simp: case_prod_beta step_started)

lemma reached_started: "list_all names_return xs \<Longrightarrow> started_inv (reached xs)"
  by (simp add: reached_def exec_started started_inv_init)

lemma reached_printing_nonneg:
  "list_all names_return xs \<Longrightarrow> is_printing (reached xs) \<Longrightarrow> 0 \<le> last_progress (reached xs)"
  using reached_started [of xs] by (simp add: started_inv_def split: if_splits)

section \<open>Claims\<close>

subsection \<open>The reported percentage\<close>

text \<open>
  C3, as stated, fails when \<open>floor(p * 100)\<close> is the floor of the exact product: the code
  truncates the product after it has been rounded to a double. For the double nearest
  to \<open>0.03\<close>, which is slightly less than \<open>3 / 100\<close>, the exact product has floor \<open>2\<close>,
  while the rounded product is \<open>3\<close> and the event reports \<open>3\<close>.
\<close>

theorem progress_percent_exact_floor_counterexample:
  "fl (1080863910568919 / 36028797018963968) = 1080863910568919 / 36028797018963968 \<and>
   (0::real) \<le> 1080863910568919 / 36028797018963968 \<and>
   (1080863910568919 / 36028797018963968 :: real) \<le> 1 \<and>
   \<lfloor>(1080863910568919 / 36028797018963968 :: real) * 100\<rfloor> = 2 \<and>
   on_print_progress_changed
     (reached [SetWebhookUrl ''http://example.org/hook'',
               PrintJobChanged (Some \<lparr>getName = Some (Returns ''benchy.gcode''), getProgress = None\<rparr>) 100])
     (1080863910568919 / 36028797018963968) 100 101 =
   (\<lparr>webhook_url = ''http://example.org/hook'', last_progress = 3, is_printing = True,
      current_job_name = ''benchy.gcode'', print_start_time = 100\<rparr>,
    [StartThread
       \<lparr>event_type = ''progress_update'',
        data = [(''job_name'', JStr ''benchy.gcode''), (''progress_percent'', JInt 3),
                (''elapsed_time_seconds'', JFloat 0),
                (''estimated_remaining_seconds'', JFloat 0),
                (''timestamp'', JFloat 101)],
        plugin_version = ''1.0.0''\<rparr>],
    None)"
  by (simp add: reached_def init_state setWebhookUrl_def on_print_job_changed_def
        on_print_progress_changed_def send_webhook_update_def url_unconfigured_def
        py_int_def fl_eval)

text \<open>
  C3, amended. For a progress value \<open>p\<close> in \<open>[0, 1]\<close>, the percentage carried by a
  \<^verbatim>\<open>progress_update\<close> event, which is also the percentage the tracker stores, is the
  floor of the double product \<open>fl (p * 100)\<close>: the product is not negative, and there
  Python's \<^verbatim>\<open>int\<close>, which truncates towards zero, agrees with the floor.
\<close>

theorem progress_percent_is_floor:
  "0 \<le> p \<Longrightarrow> p \<le> 1 \<Longrightarrow>
   fst (snd (on_print_progress_changed s p t1 t2)) = [StartThread pl] \<Longrightarrow>
     event_type pl = ''progress_update'' \<and>
     map_of (data pl) ''progress_percent'' = Some (JInt \<lfloor>fl (p * 100)\<rfloor>) \<and>
     last_progress (fst (on_print_progress_changed s p t1 t2)) = \<lfloor>fl (p * 100)\<rfloor> \<and>
     py_int (fl (p * 100)) = \<lfloor>fl (p * 100)\<rfloor>"
proof -
  assume p: "0 \<le> p" "p \<le> 1"
    and ev: "fst (snd (on_print_progress_changed s p t1 t2)) = [StartThread pl]"
  from p have r: "\<bar>fl (p * 100)\<bar> < 2 ^ 1024 \<and> py_int (fl (p * 100)) = \<lfloor>fl (p * 100)\<rfloor>"
    by (rule percent_in_range)
  from ev have "fst (snd (on_print_progress_changed s p t1 t2)) \<noteq> []" by simp
  then have c: "is_printing s" "last_progress s < py_int (fl (p * 100))"
    by (simp_all add: progress_changed_fires)
  from c r have "on_print_progress_changed s p t1 t2 =
       (s\<lparr>last_progress := py_int (fl (p * 100))\<rparr>,
        send_webhook_update s ''progress_update''
          [(''job_name'', JStr (current_job_name s)),
           (''progress_percent'', JInt (py_int (fl (p * 100)))),
           (''elapsed_time_seconds'', JFloat (fl (t1 - print_start_time s))),
           (''estimated_remaining_seconds'',
              JFloat (fl (fl (fl (t1 - print_start_time s) / (if p > 0 then p else fl (1 / 100)))
                          - fl (t1 - print_start_time s)))),
           (''timestamp'', JFloat t2)],
        None)"
    by (intro progress_changed_emits) simp_all
  with ev r show ?thesis
    by (auto simp: send_webhook_update_def split: if_splits)
qed

theorem progress_percent_is_floor_witness:
  "(0::real) \<le> 1080863910568919 / 36028797018963968 \<and>
   (1080863910568919 / 36028797018963968 :: real) \<le> 1 \<and>
   fst (snd (on_print_progress_changed
          \<lparr>webhook_url = ''http://example.org/hook'', last_progress = 2, is_printing = True,
            current_job_name = ''benchy.gcode'', print_start_time = 100\<rparr>
          (1080863910568919 / 36028797018963968) 100 101)) =
     [StartThread
        \<lparr>event_type = ''progress_update'',
         data = [(''job_name'', JStr ''benchy.gcode''), (''progress_percent'', JInt 3),
                 (''elapsed_time_seconds'', JFloat 0),
                 (''estimated_remaining_seconds'', JFloat 0),
                 (''timestamp'', JFloat 101)],
         plugin_version = ''1.0.0''\<rparr>] \<and>
   \<lfloor>fl ((1080863910568919 / 36028797018963968) * 100)\<rfloor> = 3 \<and>
   last_progress (fst (on_print_progress_changed
          \<lparr>webhook_url = ''http://example.org/hook'', last_progress = 2, is_printing = True,
            current_job_name = ''benchy.gcode'', print_start_time = 100\<rparr>
          (1080863910568919 / 36028797018963968) 100 101)) = 3"
  using progress_percent_is_floor [of "1080863910568919 / 36028797018963968"
          "\<lparr>webhook_url = ''http://example.org/hook'', last_progress = 2, is_printing = True,
            current_job_name = ''benchy.gcode'', print_start_time = 100\<rparr>" 100 101]
  by (simp add: on_print_progress_changed_def send_webhook_update_def url_unconfigured_def
        py_int_def fl_eval)

subsection \<open>The end of a job\<close>




subsection \<open>The pushed job-changed signal does not look at the state\<close>



subsection \<open>The stored percentage over a run\<close>





subsection \<open>An unconfigured URL\<close>

lemma send_webhook_update_blocked:
  "url_unconfigured (webhook_url s) \<Longrightarrow>
     send_webhook_update s ev d = [Log ''w'' ''Webhook URL not configured, skipping update'']"
  by (simp add: send_webhook_update_def)

lemma job_changed_blocked:
  "url_unconfigured (webhook_url s) \<Longrightarrow>
     filter is_request (fst (snd (on_print_job_changed s j now))) = []"
  by (simp add: on_print_job_changed_def Let_def send_webhook_update_def
        split: option.splits call.splits)

lemma progress_changed_blocked:
  "url_unconfigured (webhook_url s) \<Longrightarrow>
     filter is_request (fst (snd (on_print_progress_changed s p t1 t2))) = []"
  by (simp add: on_print_progress_changed_def Let_def send_webhook_update_def)

lemma step_unconfigured:
  assumes "url_unconfigured (webhook_url s)" and "\<forall>u. x = SetWebhookUrl u \<longrightarrow> url_unconfigured u"
  shows "url_unconfigured (webhook_url (fst (step s x))) \<and>
         filter is_request (fst (snd (step s x))) = []"
proof (cases x)
  case (PrintJobChanged j now)
  with assms(1) show ?thesis by (simp add: job_changed_url job_changed_blocked)
next
  case (PrintProgressChanged p t1 t2)
  with assms(1) show ?thesis by (simp add: progress_changed_url progress_changed_blocked)
next
  case (ConnectionStateChanged c)
  with assms(1) show ?thesis by (simp add: on_connection_state_changed_def)
next
  case (TimerTick ds)
  with assms(1) show ?thesis by (simp add: check_print_progress_def)
next
  case (SetWebhookUrl u)
  with assms(2) show ?thesis by (simp add: setWebhookUrl_def)
qed

lemma exec_unconfigured:
  "url_unconfigured (webhook_url s) \<Longrightarrow>
   \<forall>u. SetWebhookUrl u \<in> set xs \<longrightarrow> url_unconfigured u \<Longrightarrow>
     url_unconfigured (webhook_url (fst (exec s xs))) \<and> filter is_request (snd (exec s xs)) = []"
proof (induction xs arbitrary: s)
  case Nil
  then show ?case by simp
next
  case (Cons x xs)
  from Cons.prems have st: "url_unconfigured (webhook_url (fst (step s x))) \<and>
      filter is_request (fst (snd (step s x))) = []"
    by (intro step_unconfigured) auto
  from Cons.prems(2) have "\<forall>u. SetWebhookUrl u \<in> set xs \<longrightarrow> url_unconfigured u" by simp
  with st have "url_unconfigured (webhook_url (fst (exec (fst (step s x)) xs))) \<and>
      filter is_request (snd (exec (fst (step s x)) xs)) = []"
    by (intro Cons.IH) simp_all
  with st show ?case by (simp add: case_prod_beta)
qed

text \<open>
  C6. While the URL is empty or the placeholder, and stays so under every call of the
  setter in the run, a dispatch only logs the warning, a timer tick does nothing at all,
  and no effect of the whole run starts a sender thread: no HTTP request is issued.
\<close>

theorem unconfigured_url_no_request:
  "url_unconfigured (webhook_url s) \<Longrightarrow>
   \<forall>u. SetWebhookUrl u \<in> set xs \<longrightarrow> url_unconfigured u \<Longrightarrow>
     send_webhook_update s ev d = [Log ''w'' ''Webhook URL not configured, skipping update''] \<and>
     check_print_progress s ds = (s, []) \<and>
     url_unconfigured (webhook_url (fst (exec s xs))) \<and>
     filter is_request (snd (exec s xs)) = []"
  using exec_unconfigured [of s xs]
  by (simp add: send_webhook_update_blocked check_print_progress_def)

theorem unconfigured_url_no_request_witness:
  "url_unconfigured (webhook_url (fst init)) \<and> url_unconfigured [] \<and>
   check_print_progress (fst init)
     (Returns [(\<lparr>activePrintJob = Some (Returns (Some \<lparr>getName = None, getProgress = None\<rparr>)),
        printProgress = Some (Returns (Some (1 / 2)))\<rparr>, 200, 201, 202)]) = (fst init, []) \<and>
   snd (exec (fst init)
          [PrintJobChanged (Some \<lparr>getName = Some (Returns ''benchy.gcode''), getProgress = None\<rparr>) 100,
           PrintProgressChanged (1 / 2) 150 151,
           SetWebhookUrl [],
           TimerTick (Returns [(\<lparr>activePrintJob = Some (Returns None), printProgress = None\<rparr>, 200, 201, 202)]),
           PrintJobChanged None 300]) =
     [Log ''w'' ''Webhook URL not configured, skipping update'',
      Log ''w'' ''Webhook URL not configured, skipping update'',
      Log ''i'' ''Webhook URL set to: '',
      Log ''w'' ''Webhook URL not configured, skipping update''] \<and>
   filter is_request (snd (exec (fst init)
          [PrintJobChanged (Some \<lparr>getName = Some (Returns ''benchy.gcode''), getProgress = None\<rparr>) 100,
           PrintProgressChanged (1 / 2) 150 151,
           SetWebhookUrl [],
           TimerTick (Returns [(\<lparr>activePrintJob = Some (Returns None), printProgress = None\<rparr>, 200, 201, 202)]),
           PrintJobChanged None 300])) = []"
  using unconfigured_url_no_request [of "fst init"
          "[PrintJobChanged (Some \<lparr>getName = Some (Returns ''benchy.gcode''), getProgress = None\<rparr>) 100,
            PrintProgressChanged (1 / 2) 150 151,
            SetWebhookUrl [],
            TimerTick (Returns [(\<lparr>activePrintJob = Some (Returns None), printProgress = None\<rparr>, 200, 201, 202)]),
            PrintJobChanged None 300]"
          "''print_ended''" "[]"
          "Returns [(\<lparr>activePrintJob = Some (Returns (Some \<lparr>getName = None, getProgress = None\<rparr>)),
              printProgress = Some (Returns (Some (1 / 2)))\<rparr>, 200, 201, 202)]"]
  by (simp add: init_state url_unconfigured_def on_print_job_changed_def
        on_print_progress_changed_def py_int_def send_webhook_update_def
        check_print_progress_def setWebhookUrl_def fl_eval)

subsection \<open>The sender never raises\<close>

lemma str_int_404: "str_int 404 = ''404''"
  by code_simp

text \<open>
  C7. \<^verbatim>\<open>_send_webhook_request\<close> returns normally, with exactly one log line, for
  every payload and every outcome of serialising and sending: a response with status
  200 logs success at level \<^verbatim>\<open>d\<close> with the event type, a response with any other
  status logs a warning with the status code, and an exception raised at any step
  (\<^verbatim>\<open>HTTPError\<close>, \<^verbatim>\<open>URLError\<close> or any other \<^verbatim>\<open>Exception\<close>) is logged at level \<^verbatim>\<open>e\<close>.
\<close>

text \<open>
  C7. \<^verbatim>\<open>_send_webhook_request\<close> returns normally, with exactly one log line, for
  every payload and every outcome of serialising and sending: a response with status
  200 logs success at level \<^verbatim>\<open>d\<close> with the event type, a response with any other
  status logs a warning with the status code, and an exception raised at any step
  (\<^verbatim>\<open>HTTPError\<close>, \<^verbatim>\<open>URLError\<close> or any other \<^verbatim>\<open>Exception\<close>) is logged at level \<^verbatim>\<open>e\<close>.
\<close>

theorem send_webhook_request_never_raises:
  "(\<exists>lvl msg. send_webhook_request pl out = Inr [Log lvl msg]) \<and>
   send_webhook_request pl (Response 200) =
     Inr [Log ''d'' (''Webhook update sent successfully: '' @ event_type pl)] \<and>
   (code \<noteq> 200 \<longrightarrow>
      send_webhook_request pl (Response code) =
        Inr [Log ''w'' (''Webhook returned status '' @ str_int code)]) \<and>
   (out \<in> {DumpsRaises e, RequestRaises e, UrlopenRaises e} \<longrightarrow>
      (\<exists>msg. send_webhook_request pl out = Inr [Log ''e'' msg]))"
proof -
  have caught: "\<exists>msg. (case Inl e of
          Inr es \<Rightarrow> Inr es
        | Inl (HTTPError c reason) \<Rightarrow>
            Inr [Log ''e'' (''HTTP error sending webhook: '' @ str_int c @ '' - '' @ reason)]
        | Inl (URLError reason) \<Rightarrow> Inr [Log ''e'' (''URL error sending webhook: '' @ reason)]
        | Inl (OtherException m) \<Rightarrow> Inr [Log ''e'' (''Unexpected error sending webhook: '' @ m)]) =
      (Inr [Log ''e'' msg] :: exn + effect list)" for e
    by (cases e) simp_all
  have raised: "\<exists>msg. send_webhook_request pl out = Inr [Log ''e'' msg]"
    if "out \<in> {DumpsRaises e, RequestRaises e, UrlopenRaises e}"
    using that caught [of e]
    by (auto simp: send_webhook_request_def send_webhook_request_try_def)
  have any: "\<exists>lvl msg. send_webhook_request pl out = Inr [Log lvl msg]"
  proof (cases out)
    case (Response c)
    then show ?thesis by (simp add: send_webhook_request_def send_webhook_request_try_def)
  next
    case (DumpsRaises x)
    then show ?thesis using caught [of x]
      by (auto simp: send_webhook_request_def send_webhook_request_try_def)
  next
    case (RequestRaises x)
    then show ?thesis using caught [of x]
      by (auto simp: send_webhook_request_def send_webhook_request_try_def)
  next
    case (UrlopenRaises x)
    then show ?thesis using caught [of x]
      by (auto simp: send_webhook_request_def send_webhook_request_try_def)
  qed
  have ok: "send_webhook_request pl (Response 200) =
     Inr [Log ''d'' (''Webhook update sent successfully: '' @ event_type pl)]"
    by (simp add: send_webhook_request_def send_webhook_request_try_def)
  have other: "code \<noteq> 200 \<longrightarrow>
      send_webhook_request pl (Response code) =
        Inr [Log ''w'' (''Webhook returned status '' @ str_int code)]"
    by (simp add: send_webhook_request_def send_webhook_request_try_def)
  from any ok other raised show ?thesis by blast
qed

theorem send_webhook_request_never_raises_witness:
  "(404::int) \<noteq> 200 \<and>
   send_webhook_request
     \<lparr>event_type = ''print_ended'',
      data = [(''message'', JStr ''Print job ended or cancelled''), (''timestamp'', JFloat 200)],
      plugin_version = ''1.0.0''\<rparr> (Response 404) =
     Inr [Log ''w'' ''Webhook returned status 404''] \<and>
   UrlopenRaises (URLError ''timed out'') \<in>
     {DumpsRaises (URLError ''timed out''), RequestRaises (URLError ''timed out''),
      UrlopenRaises (URLError ''timed out'')} \<and>
   send_webhook_request
     \<lparr>event_type = ''print_ended'',
      data = [(''message'', JStr ''Print job ended or cancelled''), (''timestamp'', JFloat 200)],
      plugin_version = ''1.0.0''\<rparr> (UrlopenRaises (URLError ''timed out'')) =
     Inr [Log ''e'' ''URL error sending webhook: timed out''] \<and>
   send_webhook_request
     \<lparr>event_type = ''print_ended'',
      data = [(''message'', JStr ''Print job ended or cancelled''), (''timestamp'', JFloat 200)],
      plugin_version = ''1.0.0''\<rparr> (Response 200) =
     Inr [Log ''d'' ''Webhook update sent successfully: print_ended'']"
  using send_webhook_request_never_raises [of
          "\<lparr>event_type = ''print_ended'',
            data = [(''message'', JStr ''Print job ended or cancelled''), (''timestamp'', JFloat 200)],
            plugin_version = ''1.0.0''\<rparr>"
          "UrlopenRaises (URLError ''timed out'')" 404 "URLError ''timed out''"]
  by (simp add: send_webhook_request_def send_webhook_request_try_def str_int_404)

end
